theory Spec2Isabelle
  imports Main
begin

chapter \<open>The evohome gateway: packet filter, payload pipeline, dispatcher and configuration\<close>

text \<open>
  A shallow embedding of \<^verbatim>\<open>src/evohome/__init__.py\<close> (class \<^verbatim>\<open>Gateway\<close>),
  of \<^verbatim>\<open>select_device_filter_mode\<close> in \<^verbatim>\<open>src/ramses_rf/protocol/schemas.py\<close>
  and of the constants and regular expressions of \<^verbatim>\<open>src/ramses_rf/const.py\<close>
  that the gateway relies on. Strings are \<open>char list\<close>, one \<open>char\<close> per code point
  below 256. Log output is not modelled unless stated.
\<close>

section \<open>Strings as the source uses them\<close>

text \<open>Python's \<^verbatim>\<open>s[i:j]\<close> for \<open>0 \<le> i \<le> j\<close>: bounds beyond the end are clipped.\<close>

definition slice :: "nat \<Rightarrow> nat \<Rightarrow> 'a list \<Rightarrow> 'a list" where
  "slice i j s = take (j - i) (drop i s)"

text \<open>\<^verbatim>\<open>s.startswith(p)\<close>.\<close>

fun startswith :: "string \<Rightarrow> string \<Rightarrow> bool" where
  "startswith s [] = True"
| "startswith [] (p # ps) = False"
| "startswith (c # s) (p # ps) = (c = p \<and> startswith s ps)"

text \<open>\<^verbatim>\<open>sub in s\<close> on strings: \<open>sub\<close> occurs in \<open>s\<close> as a contiguous run.\<close>

fun str_in :: "string \<Rightarrow> string \<Rightarrow> bool" where
  "str_in sub [] = (sub = [])"
| "str_in sub (c # s) = (startswith (c # s) sub \<or> str_in sub s)"

definition isdigit :: "char \<Rightarrow> bool" where
  "isdigit c = (c \<in> set ''0123456789'')"

definition ishex :: "char \<Rightarrow> bool" where
  "ishex c = (c \<in> set ''0123456789ABCDEF'')"

text \<open>\<^verbatim>\<open>str.isspace\<close> on a single character (code points below 256).\<close>

definition isspace :: "char \<Rightarrow> bool" where
  "isspace c = (c \<in> set [CHR 0x09, CHR 0x0A, CHR 0x0B, CHR 0x0C, CHR 0x0D, CHR 0x1C, CHR 0x1D,
     CHR 0x1E, CHR 0x1F, CHR 0x20, CHR 0x85, CHR 0xA0])"

text \<open>\<^verbatim>\<open>s.strip()\<close>: leading and trailing whitespace removed.\<close>

definition strip :: "string \<Rightarrow> string" where
  "strip s = rev (dropWhile isspace (rev (dropWhile isspace s)))"

text \<open>\<^verbatim>\<open>int(s)\<close> on a string of decimal digits.\<close>

definition int_of_digits :: "string \<Rightarrow> nat" where
  "int_of_digits s = foldl (\<lambda>n c. 10 * n + (of_char c - 48)) 0 s"

text \<open>Python truthiness of an optional string, an optional flag.\<close>

definition truthy_str :: "string option \<Rightarrow> bool" where
  "truthy_str v = (case v of None \<Rightarrow> False | Some s \<Rightarrow> s \<noteq> [])"

definition truthy_bool :: "bool option \<Rightarrow> bool" where
  "truthy_bool v = (case v of None \<Rightarrow> False | Some b \<Rightarrow> b)"

section \<open>Packet lines (\<^verbatim>\<open>const.py\<close>, packet structure validators)\<close>

text \<open>
  The pieces \<^verbatim>\<open>r\<close>, \<^verbatim>\<open>v\<close>, \<^verbatim>\<open>d\<close>, \<^verbatim>\<open>c\<close>, \<^verbatim>\<open>l\<close>, \<^verbatim>\<open>p\<close> of the
  validators, each as a recogniser of a whole field.
\<close>

definition re_r :: "string \<Rightarrow> bool" where
  "re_r s = (s = ''---'' \<or> (length s = 3 \<and> list_all isdigit s) \<or> s = ''...'')"

definition re_v :: "string \<Rightarrow> bool" where
  "re_v s = (s = '' I'' \<or> s = ''RP'' \<or> s = ''RQ'' \<or> s = '' W'')"

definition re_d :: "string \<Rightarrow> bool" where
  "re_d s = (s = ''--:------'' \<or>
     (length s = 9 \<and> list_all isdigit (slice 0 2 s) \<and> slice 2 3 s = '':'' \<and>
      list_all isdigit (slice 3 9 s)))"

definition re_c :: "string \<Rightarrow> bool" where
  "re_c s = (length s = 4 \<and> list_all ishex s)"

definition re_l :: "string \<Rightarrow> bool" where
  "re_l s = (length s = 3 \<and> list_all isdigit s)"

definition re_p :: "string \<Rightarrow> bool" where
  "re_p s = (list_all ishex s \<and> even (length s) \<and> 2 \<le> length s \<and> length s \<le> 96)"

text \<open>The payload up to \<^verbatim>\<open>$\<close>, which also matches just before one final newline.\<close>

definition re_p_end :: "string \<Rightarrow> bool" where
  "re_p_end s = re_p (if s \<noteq> [] \<and> last s = CHR 0x0A then butlast s else s)"

text \<open>
  \<^verbatim>\<open>MESSAGE_REGEX = ^{r} {v} {r} {d} {d} {d} {c} {l} {p}$\<close>. Every field but the payload
  has a fixed width, so the fields sit at fixed columns.
\<close>

definition MESSAGE_REGEX :: "string \<Rightarrow> bool" where
  "MESSAGE_REGEX s =
    (re_r (slice 0 3 s) \<and> slice 3 4 s = '' '' \<and>
     re_v (slice 4 6 s) \<and> slice 6 7 s = '' '' \<and>
     re_r (slice 7 10 s) \<and> slice 10 11 s = '' '' \<and>
     re_d (slice 11 20 s) \<and> slice 20 21 s = '' '' \<and>
     re_d (slice 21 30 s) \<and> slice 30 31 s = '' '' \<and>
     re_d (slice 31 40 s) \<and> slice 40 41 s = '' '' \<and>
     re_c (slice 41 45 s) \<and> slice 45 46 s = '' '' \<and>
     re_l (slice 46 49 s) \<and> slice 49 50 s = '' '' \<and>
     re_p_end (drop 50 s))"

text \<open>
  Modelled from the spec: the class \<^verbatim>\<open>Packet\<close> (module \<^verbatim>\<open>packet\<close>) is not among the
  sources. Its \<^verbatim>\<open>packet\<close> attribute is the wire line
  \<^verbatim>\<open>RRR V --- AA:BBBBBB AA:BBBBBB AA:BBBBBB CCCC LLL PP...PP\<close>; a valid Packet matches
  the structural grammar, which is \<open>MESSAGE_REGEX\<close> above. Its three addresses are the
  three device fields of the line.
\<close>

definition pkt_addrs :: "string \<Rightarrow> string list" where
  "pkt_addrs s = [slice 11 20 s, slice 21 30 s, slice 31 40 s]"

text \<open>A device id proper, \<^verbatim>\<open>[0-9]{2}:[0-9]{6}\<close> (\<^verbatim>\<open>ALL_DEVICE_ID\<close>), as a whole string.\<close>

definition is_device_id :: "string \<Rightarrow> bool" where
  "is_device_id s =
     (length s = 9 \<and> list_all isdigit (slice 0 2 s) \<and> slice 2 3 s = '':'' \<and>
      list_all isdigit (slice 3 9 s))"

section \<open>The device filter\<close>

text \<open>\<^verbatim>\<open>has_wanted_device(pkt, dev_whitelist, dev_blacklist)\<close>, on \<^verbatim>\<open>pkt.packet\<close>.\<close>

definition has_wanted_device :: "string \<Rightarrow> string list \<Rightarrow> string list \<Rightarrow> bool" where
  "has_wanted_device pkt dev_whitelist dev_blacklist =
     (if str_in '' 18:'' pkt then True
      else if dev_whitelist \<noteq> [] then list_ex (\<lambda>device. str_in device pkt) dev_whitelist
      else \<not> list_ex (\<lambda>device. str_in device pkt) dev_blacklist)"

text \<open>
  The part of \<^verbatim>\<open>Gateway.start\<close> that fills \<^verbatim>\<open>device_whitelist\<close> and
  \<^verbatim>\<open>device_blacklist\<close>. The known-devices file is an association list from device id
  to the truth value of its \<^verbatim>\<open>blacklist\<close> attribute; \<open>None\<close> stands for no file
  configured or no file found. The result is the pair (whitelist, blacklist).
\<close>

definition start_device_lists :: "bool \<Rightarrow> (string \<times> bool) list option \<Rightarrow> string list \<times> string list" where
  "start_device_lists device_whitelist known_devices =
     (case known_devices of
        None \<Rightarrow> ([], [])
      | Some devices \<Rightarrow>
          if device_whitelist then (map fst (filter (\<lambda>kv. \<not> snd kv) devices), [])
          else ([], map fst (filter (\<lambda>kv. snd kv) devices)))"

text \<open>The known devices that are not flagged \<^verbatim>\<open>blacklist\<close>.\<close>

definition unflagged :: "(string \<times> bool) list \<Rightarrow> string list" where
  "unflagged devices = map fst (filter (\<lambda>kv. \<not> snd kv) devices)"

text \<open>The filter rules in the words of the specification, on the address triple.\<close>

definition has_class_18 :: "string \<Rightarrow> bool" where
  "has_class_18 pkt = list_ex (\<lambda>a. slice 0 2 a = ''18'') (pkt_addrs pkt)"

definition in_known_list :: "string list \<Rightarrow> string \<Rightarrow> bool" where
  "in_known_list known_list pkt =
     list_ex (\<lambda>a. a \<noteq> ''--:------'' \<and> a \<in> set known_list) (pkt_addrs pkt)"

definition spec_whitelist_admits :: "string list \<Rightarrow> string \<Rightarrow> bool" where
  "spec_whitelist_admits known_list pkt = (in_known_list known_list pkt \<or> has_class_18 pkt)"

definition spec_blacklist_drops :: "string list \<Rightarrow> string \<Rightarrow> bool" where
  "spec_blacklist_drops block_list pkt = list_ex (\<lambda>a. a \<in> set block_list) (pkt_addrs pkt)"

section \<open>The gateway and its configuration\<close>

datatype exn = AssertionError | NotImplementedError | LookupError | TypeError | ValueError
  | OtherException

text \<open>An open text file is the list of its lines.\<close>

datatype text_file = File "string list"

text \<open>\<^verbatim>\<open>message_log\<close> is unset, a file name, or \<^verbatim>\<open>False\<close> once disabled.\<close>

datatype log_file = Unset | Disabled | LogFile string

definition truthy_log :: "log_file \<Rightarrow> bool" where
  "truthy_log v = (case v of LogFile s \<Rightarrow> s \<noteq> [] | _ \<Rightarrow> False)"

text \<open>
  The entries of \<^verbatim>\<open>config\<close> the gateway reads; \<open>None\<close> is an absent key (or
  \<^verbatim>\<open>None\<close>), as \<^verbatim>\<open>config.get\<close> sees it.
\<close>

record Config =
  input_file :: "text_file option"
  probe_system :: "bool option"
  listen_only :: "bool option"
  execute_cmd :: "string option"
  raw_output :: "int option"
  message_log :: log_file

text \<open>\<^verbatim>\<open>config.get("raw_output", 0)\<close>.\<close>

definition get_raw_output :: "Config \<Rightarrow> int" where
  "get_raw_output config = (case raw_output config of None \<Rightarrow> 0 | Some n \<Rightarrow> n)"

text \<open>
  \<^verbatim>\<open>Command(verb, dest_addr, code, payload)\<close>. The class is not among the sources;
  \<^verbatim>\<open>str(cmd)\<close> is a parameter \<open>cmd_str\<close> wherever the gateway calls it.
\<close>

record Command =
  cmd_verb :: string
  dest_addr :: string
  cmd_code :: string
  cmd_payload :: string

text \<open>The attributes of a \<^verbatim>\<open>Message\<close> that the gateway reads.\<close>

record Message =
  msg_verb :: string
  msg_code :: string
  dev_from :: string
  is_valid :: bool

text \<open>
  The gateway object: \<open>cmd_que\<close> lists the queued commands in the order
  \<^verbatim>\<open>PriorityQueue.get\<close> hands them out, \<open>buffer\<close> is the deque \<^verbatim>\<open>_buffer\<close>
  (left to right), \<open>evo\<close> the entity store.
\<close>

record 'e Gateway =
  serial_port :: "string option"
  config :: Config
  cmd_que :: "Command list"
  buffer :: "Command list"
  device_blacklist :: "string list"
  device_whitelist :: "string list"
  evo :: 'e

subsection \<open>\<^verbatim>\<open>Gateway.__init__\<close>: normalising the configuration\<close>

definition ignore_input_file :: "string option \<Rightarrow> Config \<Rightarrow> Config" where
  "ignore_input_file port c =
     (if truthy_str port \<and> input_file c \<noteq> None then c\<lparr>input_file := None\<rparr> else c)"

definition set_listen_only :: "Config \<Rightarrow> Config" where
  "set_listen_only c = c\<lparr>listen_only := Some (\<not> truthy_bool (probe_system c))\<rparr>"

definition input_file_overrides :: "Config \<Rightarrow> Config" where
  "input_file_overrides c =
     (if input_file c \<noteq> None then
        (let c1 = (if \<not> truthy_bool (listen_only c) then c\<lparr>listen_only := Some True\<rparr> else c)
         in if truthy_str (execute_cmd c1) then c1\<lparr>execute_cmd := None\<rparr> else c1)
      else c)"

definition disable_message_log :: "Config \<Rightarrow> Config" where
  "disable_message_log c =
     (if get_raw_output c > 2 \<and> truthy_log (message_log c) then c\<lparr>message_log := Disabled\<rparr>
      else c)"

definition gateway_init :: "string option \<Rightarrow> Config \<Rightarrow> 'e \<Rightarrow> 'e Gateway" where
  "gateway_init port c evo0 =
     \<lparr>serial_port = port,
      config = disable_message_log (input_file_overrides (set_listen_only (ignore_input_file port c))),
      cmd_que = [], buffer = [], device_blacklist = [], device_whitelist = [], evo = evo0\<rparr>"

subsection \<open>\<^verbatim>\<open>Gateway._process_payload\<close>\<close>

text \<open>
  What the call did, in order: the \<^verbatim>\<open>Message\<close> constructor ran, \<^verbatim>\<open>_create_entities\<close>
  ran, \<^verbatim>\<open>_update_entities\<close> ran, an exception was caught and logged.
\<close>

datatype event = MessageInit | CreateEntities | UpdateEntities | LogException

text \<open>
  The class \<^verbatim>\<open>Message\<close> is not among the sources, so its three entry points are
  parameters: \<open>message_init pkt gwy\<close> is the constructor (it may raise),
  \<open>create_entities msg e\<close> and \<open>update_entities msg e\<close> return the entity store they
  leave behind and the exception they raised, if any. The result is the gateway
  afterwards, the events in order, and the exception that escapes, if any.
\<close>

definition match_buffer :: "Message \<Rightarrow> 'e Gateway \<Rightarrow> 'e Gateway" where
  "match_buffer msg gwy =
     (if buffer gwy \<noteq> [] then
        (let cmd = last (buffer gwy)
         in if msg_verb msg = ''RP'' \<and> msg_code msg = cmd_code cmd then gwy\<lparr>buffer := []\<rparr>
            else gwy)
      else gwy)"

definition caught_by_entities_handler :: "exn \<Rightarrow> bool" where
  "caught_by_entities_handler e =
     (e = AssertionError \<or> e = LookupError \<or> e = TypeError \<or> e = ValueError)"

definition caught_by_message_handler :: "exn \<Rightarrow> bool" where
  "caught_by_message_handler e =
     (e = AssertionError \<or> e = NotImplementedError \<or> e = LookupError \<or> e = TypeError \<or>
      e = ValueError)"

definition handle_entities_exn :: "'e Gateway \<Rightarrow> event list \<Rightarrow> exn \<Rightarrow> 'e Gateway \<times> event list \<times> exn option" where
  "handle_entities_exn gwy evs e =
     (if caught_by_entities_handler e then (gwy, evs @ [LogException], None)
      else (gwy, evs, Some e))"

definition process_payload ::
  "(string \<Rightarrow> 'e Gateway \<Rightarrow> exn + Message) \<Rightarrow> (Message \<Rightarrow> 'e \<Rightarrow> 'e \<times> exn option) \<Rightarrow>
   (Message \<Rightarrow> 'e \<Rightarrow> 'e \<times> exn option) \<Rightarrow> string \<Rightarrow> 'e Gateway \<Rightarrow>
   'e Gateway \<times> event list \<times> exn option" where
  "process_payload message_init create_entities update_entities pkt gwy =
     (if get_raw_output (config gwy) > 2 then (gwy, [], None)
      else case message_init pkt gwy of
        Inl e \<Rightarrow>
          if caught_by_message_handler e then (gwy, [MessageInit, LogException], None)
          else (gwy, [MessageInit], Some e)
      | Inr msg \<Rightarrow>
          if \<not> is_valid msg then (gwy, [MessageInit], None)
          else
            let gwy1 = match_buffer msg gwy in
            if get_raw_output (config gwy) > 1 then (gwy1, [MessageInit], None)
            else if slice 0 2 (dev_from msg) = ''18'' then (gwy1, [MessageInit], None)
            else
              case create_entities msg (evo gwy1) of
                (e1, Some x) \<Rightarrow>
                  handle_entities_exn (gwy1\<lparr>evo := e1\<rparr>) [MessageInit, CreateEntities] x
              | (e1, None) \<Rightarrow>
                  if get_raw_output (config gwy) > 0
                  then (gwy1\<lparr>evo := e1\<rparr>, [MessageInit, CreateEntities], None)
                  else
                    case update_entities msg e1 of
                      (e2, Some x) \<Rightarrow>
                        handle_entities_exn (gwy1\<lparr>evo := e2\<rparr>)
                          [MessageInit, CreateEntities, UpdateEntities] x
                    | (e2, None) \<Rightarrow>
                        (gwy1\<lparr>evo := e2\<rparr>, [MessageInit, CreateEntities, UpdateEntities], None))"

text \<open>Reply matching in the words of the specification.\<close>

definition spec_reply_match :: "Message \<Rightarrow> Command \<Rightarrow> bool" where
  "spec_reply_match msg cmd =
     (msg_code msg = cmd_code cmd \<and> (msg_verb msg = ''RP'' \<or> msg_verb msg = '' I'') \<and>
      dev_from msg = dest_addr cmd)"

text \<open>The pending command was consumed: the buffer held it before and is empty after.\<close>

definition consumed :: "'e Gateway \<Rightarrow> 'e Gateway \<Rightarrow> bool" where
  "consumed gwy gwy' = (buffer gwy \<noteq> [] \<and> buffer gwy' = [])"

text \<open>The events of a call in order, the log entries left out.\<close>

definition events_run :: "'e Gateway \<times> event list \<times> exn option \<Rightarrow> event list" where
  "events_run r = filter (\<lambda>ev. ev \<noteq> LogException) (fst (snd r))"

subsection \<open>\<^verbatim>\<open>Gateway._dispatch_pkt\<close>\<close>

text \<open>
  One turn of the loop for the command just taken from the queue: the commands written
  to the destination by \<^verbatim>\<open>put_pkt\<close>, and the buffer afterwards. \<open>has_dest\<close> says
  that \<^verbatim>\<open>destination\<close> is not \<^verbatim>\<open>None\<close>. In the branch that waits for the reply to
  an \<^verbatim>\<open>RQ\<close> of code \<^verbatim>\<open>0404\<close> the command is written once per turn of the outer timed
  loop; how many turns there are depends on the clock and on the reader task, so the
  number is the parameter \<open>sends\<close>. The buffer is empty when that branch ends, cleared
  by the reader or by the \<^verbatim>\<open>else\<close> of the timed loop.
\<close>

definition dispatch_cmd ::
  "(Command \<Rightarrow> string) \<Rightarrow> (Command \<Rightarrow> nat) \<Rightarrow> bool \<Rightarrow> bool \<Rightarrow> Command \<Rightarrow> Command list \<Rightarrow>
   Command list \<times> Command list" where
  "dispatch_cmd cmd_str sends has_dest listen cmd buf =
     (if has_dest \<and> startswith (cmd_str cmd) ''!'' then ([cmd], buf)
      else if \<not> has_dest \<or> listen then ([], buf)
      else if cmd_verb cmd = ''RQ'' \<and> cmd_code cmd = ''0404'' then (replicate (sends cmd) cmd, [])
      else ([cmd], buf))"

text \<open>
  The loop \<^verbatim>\<open>while not self.cmd_que.empty()\<close>, each turn taking the next command
  with \<^verbatim>\<open>get\<close>: the commands written, the final buffer and the queue left when the
  loop ends.
\<close>

fun dispatch_loop ::
  "(Command \<Rightarrow> string) \<Rightarrow> (Command \<Rightarrow> nat) \<Rightarrow> bool \<Rightarrow> bool \<Rightarrow> Command list \<Rightarrow> Command list \<Rightarrow>
   Command list \<times> Command list \<times> Command list" where
  "dispatch_loop cmd_str sends has_dest listen [] buf = ([], buf, [])"
| "dispatch_loop cmd_str sends has_dest listen (cmd # que) buf =
     (case dispatch_cmd cmd_str sends has_dest listen cmd buf of
        (written, buf1) \<Rightarrow>
          (case dispatch_loop cmd_str sends has_dest listen que buf1 of
             (written', buf2, que') \<Rightarrow> (written @ written', buf2, que')))"

definition dispatch_pkt ::
  "(Command \<Rightarrow> string) \<Rightarrow> (Command \<Rightarrow> nat) \<Rightarrow> bool \<Rightarrow> 'e Gateway \<Rightarrow> 'e Gateway \<times> Command list" where
  "dispatch_pkt cmd_str sends has_dest gwy =
     (case dispatch_loop cmd_str sends has_dest (truthy_bool (listen_only (config gwy)))
             (cmd_que gwy) (buffer gwy) of
        (written, buf, que) \<Rightarrow> (gwy\<lparr>cmd_que := que, buffer := buf\<rparr>, written))"

subsection \<open>Replaying a packet log: \<^verbatim>\<open>file_reader\<close>\<close>

text \<open>
  Modelled from the spec: the constant \<^verbatim>\<open>ISO_FORMAT_REGEX\<close> (module \<^verbatim>\<open>const\<close> of
  the gateway package) is not among the sources; the specification gives it as
  \<^verbatim>\<open>\d{4}-\d{2}-\d{2}T\d{2}:\d{2}:\d{2}\.\d{6}\<close>. \<^verbatim>\<open>re.match\<close> anchors it at the start
  of the string.
\<close>

definition ISO_FORMAT_REGEX :: "string \<Rightarrow> bool" where
  "ISO_FORMAT_REGEX s =
     (26 \<le> length s \<and>
      list_all isdigit (slice 0 4 s) \<and> slice 4 5 s = ''-'' \<and>
      list_all isdigit (slice 5 7 s) \<and> slice 7 8 s = ''-'' \<and>
      list_all isdigit (slice 8 10 s) \<and> slice 10 11 s = ''T'' \<and>
      list_all isdigit (slice 11 13 s) \<and> slice 13 14 s = '':'' \<and>
      list_all isdigit (slice 14 16 s) \<and> slice 16 17 s = '':'' \<and>
      list_all isdigit (slice 17 19 s) \<and> slice 19 20 s = ''.'' \<and>
      list_all isdigit (slice 20 26 s))"

definition is_leap :: "nat \<Rightarrow> bool" where
  "is_leap y = (y mod 4 = 0 \<and> (y mod 100 \<noteq> 0 \<or> y mod 400 = 0))"

definition days_in_month :: "nat \<Rightarrow> nat \<Rightarrow> nat" where
  "days_in_month y m =
     (if m = 2 then (if is_leap y then 29 else 28)
      else if m = 4 \<or> m = 6 \<or> m = 9 \<or> m = 11 then 30 else 31)"

text \<open>
  \<^verbatim>\<open>datetime.fromisoformat\<close> on a 26-character string of the shape above: it raises
  \<^verbatim>\<open>ValueError\<close> unless the fields denote a date and a time of day.
\<close>

definition fromisoformat_ok :: "string \<Rightarrow> bool" where
  "fromisoformat_ok s =
     (let y = int_of_digits (slice 0 4 s); m = int_of_digits (slice 5 7 s);
          d = int_of_digits (slice 8 10 s)
      in 1 \<le> y \<and> 1 \<le> m \<and> m \<le> 12 \<and> 1 \<le> d \<and> d \<le> days_in_month y m \<and>
         int_of_digits (slice 11 13 s) \<le> 23 \<and> int_of_digits (slice 14 16 s) \<le> 59 \<and>
         int_of_digits (slice 17 19 s) \<le> 59)"

text \<open>\<^verbatim>\<open>RAW_PKT(ts_pkt[:26], ts_pkt[27:].strip(), None)\<close>.\<close>

record RAW_PKT =
  datetime :: string
  packet :: string

definition raw_pkt_of :: "string \<Rightarrow> RAW_PKT" where
  "raw_pkt_of ts_pkt = \<lparr>datetime = slice 0 26 ts_pkt, packet = strip (drop 27 ts_pkt)\<rparr>"

text \<open>The \<^verbatim>\<open>try\<close> block: the exception it raises, if any.\<close>

definition check_timestamp :: "string \<Rightarrow> exn option" where
  "check_timestamp dtm =
     (if \<not> ISO_FORMAT_REGEX dtm then Some AssertionError
      else if \<not> fromisoformat_ok dtm then Some ValueError
      else None)"

text \<open>
  The loop over the lines of the input file. \<open>process_pkt\<close> stands for
  \<^verbatim>\<open>self._process_pkt\<close> as a transformer of the gateway state that may raise; an
  exception it raises ends the reader.
\<close>

fun file_reader :: "(RAW_PKT \<Rightarrow> 's \<Rightarrow> exn + 's) \<Rightarrow> string list \<Rightarrow> 's \<Rightarrow> exn + 's" where
  "file_reader process_pkt [] st = Inr st"
| "file_reader process_pkt (ts_pkt # rest) st =
     (let raw = raw_pkt_of ts_pkt in
      case check_timestamp (datetime raw) of
        Some e \<Rightarrow>
          if e = AssertionError \<or> e = ValueError then file_reader process_pkt rest st
          else Inl e
      | None \<Rightarrow>
          if packet raw \<noteq> [] then
            (case process_pkt raw st of
               Inl e \<Rightarrow> Inl e
             | Inr st' \<Rightarrow> file_reader process_pkt rest st')
          else file_reader process_pkt rest st)"

section \<open>Constants of \<^verbatim>\<open>const.py\<close>\<close>

definition DEV_MODE :: bool where
  "DEV_MODE = True"

text \<open>\<^verbatim>\<open>16 if DEV_MODE else 12\<close>, as a function of the flag.\<close>

definition max_zones_for :: "bool \<Rightarrow> nat" where
  "max_zones_for dev_mode = (if dev_mode then 16 else 12)"

definition DEFAULT_MAX_ZONES :: nat where
  "DEFAULT_MAX_ZONES = max_zones_for DEV_MODE"

text \<open>
  Modelled from the spec: the check of a zone index against the limit is not among the
  sources; the specification states it as \<^verbatim>\<open>zone_idx < MAX_ZONES\<close>.
\<close>

definition zone_idx_accepted :: "nat \<Rightarrow> nat \<Rightarrow> bool" where
  "zone_idx_accepted max_zones zone_idx = (zone_idx < max_zones)"

section \<open>\<^verbatim>\<open>select_device_filter_mode\<close> (\<^verbatim>\<open>schemas.py\<close>)\<close>

text \<open>The log records the function emits, by level and purpose.\<close>

datatype log_record =
    Warn_empty_known_list
  | Info_whitelist nat
  | Debug_known_list
  | Info_blacklist nat
  | Debug_block_list
  | Warn_enforce_recommended
  | Warn_known_list_recommended

text \<open>The result is the returned flag together with the log records in order.\<close>

definition select_device_filter_mode :: "bool \<Rightarrow> 'a list \<Rightarrow> 'b list \<Rightarrow> bool \<times> log_record list" where
  "select_device_filter_mode enforce_known_list known_list block_list =
     (let (enforce1, log1) =
            (if enforce_known_list \<and> known_list = [] then (False, [Warn_empty_known_list])
             else (enforce_known_list, []));
          log2 =
            (if enforce1 then [Info_whitelist (length known_list), Debug_known_list]
             else if block_list \<noteq> [] then [Info_blacklist (length block_list), Debug_block_list]
             else if known_list \<noteq> [] then [Warn_enforce_recommended, Debug_known_list]
             else [Warn_known_list_recommended])
      in (enforce1, log1 @ log2))"

section \<open>Stand-ins for evaluating the pipeline at concrete inputs\<close>

text \<open>
  A constructor that reads verb, source address and code off the packet line and
  accepts the lines that match \<open>MESSAGE_REGEX\<close>; an entity store that records the
  source of every message created and the code of every message applied.
\<close>

definition msg_of_line :: "string \<Rightarrow> Message" where
  "msg_of_line pkt =
     \<lparr>msg_verb = slice 4 6 pkt, msg_code = slice 41 45 pkt, dev_from = slice 11 20 pkt,
      is_valid = MESSAGE_REGEX pkt\<rparr>"

definition line_message :: "string \<Rightarrow> 'e Gateway \<Rightarrow> exn + Message" where
  "line_message pkt gwy = Inr (msg_of_line pkt)"

definition note_created :: "Message \<Rightarrow> string list \<Rightarrow> string list \<times> exn option" where
  "note_created msg e = (e @ [dev_from msg], None)"

definition note_updated :: "Message \<Rightarrow> string list \<Rightarrow> string list \<times> exn option" where
  "note_updated msg e = (e @ [msg_code msg], None)"

definition plain_config :: Config where
  "plain_config = \<lparr>input_file = None, probe_system = Some True, listen_only = Some False,
     execute_cmd = None, raw_output = Some 0, message_log = Unset\<rparr>"

definition rq_0404 :: Command where
  "rq_0404 = \<lparr>cmd_verb = ''RQ'', dest_addr = ''01:145038'', cmd_code = ''0404'',
     cmd_payload = ''00200008000100''\<rparr>"

definition waiting_gateway :: "string list Gateway" where
  "waiting_gateway = \<lparr>serial_port = Some ''/dev/ttyUSB0'', config = plain_config, cmd_que = [],
     buffer = [rq_0404], device_blacklist = [], device_whitelist = [], evo = []\<rparr>"

text \<open>A \<^verbatim>\<open>str(cmd)\<close> for the examples: verb, destination, code, payload.\<close>

definition show_cmd :: "Command \<Rightarrow> string" where
  "show_cmd cmd = (if cmd_verb cmd = ''!'' then ''!'' @ cmd_payload cmd
     else cmd_verb cmd @ '' '' @ dest_addr cmd @ '' '' @ cmd_code cmd @ '' '' @ cmd_payload cmd)"

definition keep_packet :: "RAW_PKT \<Rightarrow> string list \<Rightarrow> exn + string list" where
  "keep_packet raw st = Inr (st @ [packet raw])"

definition replay_config :: Config where
  "replay_config = \<lparr>input_file = Some (File []), probe_system = Some True, listen_only = None,
     execute_cmd = Some ''RQ 01:145038 1F09 FF'', raw_output = None, message_log = Unset\<rparr>"

definition control_cmd :: Command where
  "control_cmd = \<lparr>cmd_verb = ''!'', dest_addr = [], cmd_code = [], cmd_payload = ''V''\<rparr>"

definition listening_gateway :: "string list Gateway" where
  "listening_gateway = \<lparr>serial_port = Some ''/dev/ttyUSB0'',
     config = plain_config\<lparr>listen_only := Some True\<rparr>, cmd_que = [rq_0404, control_cmd, rq_0404],
     buffer = [], device_blacklist = [], device_whitelist = [], evo = []\<rparr>"

definition one_send :: "Command \<Rightarrow> nat" where
  "one_send cmd = 1"

text \<open>Packet lines and known-devices files for the filter.\<close>

definition pkt_ctl_to_trv :: string where
  "pkt_ctl_to_trv = ''045  I --- 01:145038 --:------ 04:000001 2309 003 0107D0''"

definition pkt_neighbour :: string where
  "pkt_neighbour = ''060  I --- 30:111111 --:------ 30:222222 31D9 003 000A00''"

definition pkt_hgi_to_ctl :: string where
  "pkt_hgi_to_ctl = ''000 RQ --- 18:000730 01:145038 --:------ 1F09 001 00''"

definition blocked_ctl :: "(string \<times> bool) list option" where
  "blocked_ctl = Some [(''01:145038'', True)]"

definition known_nothing :: "(string \<times> bool) list option" where
  "known_nothing = Some []"

definition pkt_ctl_other_payload :: string where
  "pkt_ctl_other_payload = ''072 RP --- 01:145038 --:------ 04:000001 30C9 003 0107D1''"

definition pkt_rp_0404_other :: string where
  "pkt_rp_0404_other = ''045 RP --- 01:222222 18:000730 --:------ 0404 007 00200008000100''"

definition pkt_rp_0404_ctl :: string where
  "pkt_rp_0404_ctl = ''045 RP --- 01:145038 18:000730 --:------ 0404 007 00200008000100''"

definition at_tier :: "int \<Rightarrow> string list Gateway" where
  "at_tier n = waiting_gateway\<lparr>config := plain_config\<lparr>raw_output := Some n\<rparr>\<rparr>"

text \<open>Lines of a packet log: one without microseconds, one well-formed.\<close>

definition line_no_micros :: string where
  "line_no_micros = ''2020-11-30T13:15:00 045  I --- 01:145038 --:------ 01:145038 1F09 003 FF073F'' @ [CHR 0x0A]"

definition line_good :: string where
  "line_good = ''2020-11-30T13:15:01.123456 045  I --- 01:145038 --:------ 01:145038 1F09 003 FF073F'' @ [CHR 0x0A]"



definition pkt_ctl_sync :: string where
  "pkt_ctl_sync = ''045  I --- 01:145038 --:------ 01:145038 1F09 003 FF073F''"

definition known_ctl_flagged :: "(string \<times> bool) list" where
  "known_ctl_flagged = [(''01:145038'', True), (''04:000001'', False)]"

definition known_all_flagged :: "(string \<times> bool) list" where
  "known_all_flagged = [(''01:145038'', True)]"

text \<open>The gateway once the dispatcher has buffered the next request.\<close>

definition buffer_next :: "Command \<Rightarrow> 'e Gateway \<Rightarrow> 'e Gateway" where
  "buffer_next cmd gwy = gwy\<lparr>buffer := buffer gwy @ [cmd]\<rparr>"

definition after_reply :: "string list Gateway" where
  "after_reply =
     fst (process_payload line_message note_created note_updated pkt_rp_0404_ctl (at_tier 0))"

chapter \<open>Properties\<close>

section \<open>Substrings of a packet line\<close>

lemma startswith_iff: "startswith s p \<longleftrightarrow> (\<exists>ss. s = p @ ss)"
  by (induction s p rule: startswith.induct) auto

lemma str_in_iff: "str_in sub s \<longleftrightarrow> (\<exists>ps ss. s = ps @ sub @ ss)"
proof (induction s)
  case Nil
  then show ?case by simp
next
  case (Cons c s)
  show ?case
  proof
    assume "str_in sub (c # s)"
    then consider "startswith (c # s) sub" | "str_in sub s" by auto
    then show "\<exists>ps ss. c # s = ps @ sub @ ss"
    proof cases
      case 1
      then obtain ss where "c # s = sub @ ss" by (auto simp: startswith_iff)
      then have "c # s = [] @ sub @ ss" by simp
      then show ?thesis by blast
    next
      case 2
      then obtain ps ss where "s = ps @ sub @ ss" using Cons.IH by blast
      then have "c # s = (c # ps) @ sub @ ss" by simp
      then show ?thesis by blast
    qed
  next
    assume "\<exists>ps ss. c # s = ps @ sub @ ss"
    then obtain ps ss where eq: "c # s = ps @ sub @ ss" by blast
    show "str_in sub (c # s)"
    proof (cases ps)
      case Nil
      with eq have "startswith (c # s) sub" by (auto simp: startswith_iff)
      then show ?thesis by simp
    next
      case (Cons p ps')
      with eq have "s = ps' @ sub @ ss" by simp
      then have "str_in sub s" using Cons.IH by blast
      then show ?thesis by simp
    qed
  qed
qed

lemma split_slice: "a \<le> b \<Longrightarrow> s = take a s @ slice a b s @ drop b s"
proof -
  assume ab: "a \<le> b"
  have "drop a s = take (b - a) (drop a s) @ drop (b - a) (drop a s)"
    by (rule append_take_drop_id [symmetric])
  also have "drop (b - a) (drop a s) = drop b s" using ab by simp
  finally have "take a s @ drop a s = take a s @ slice a b s @ drop b s"
    by (simp add: slice_def)
  then show ?thesis by simp
qed

lemma nth_slice:
  assumes "a \<le> i" "i < b" "i < length s"
  shows "slice a b s ! (i - a) = s ! i" and "i - a < length (slice a b s)"
  using assms by (auto simp: slice_def)

lemma nth_in_slice: "a \<le> i \<Longrightarrow> i < b \<Longrightarrow> i < length s \<Longrightarrow> s ! i \<in> set (slice a b s)"
  using nth_slice [of a i b s] nth_mem [of "i - a" "slice a b s"] by simp

lemma slice_of_append:
  "length ps = n \<Longrightarrow> length d = k \<Longrightarrow> slice n (n + k) (ps @ d @ ss) = d"
  by (simp add: slice_def)

lemma isdigit_no_colon: "list_all isdigit s \<Longrightarrow> CHR '':'' \<notin> set s"
proof
  assume "list_all isdigit s" and "CHR '':'' \<in> set s"
  then have "isdigit (CHR '':'')" by (simp add: list_all_iff)
  then show False by (simp add: isdigit_def)
qed

lemma ishex_no_colon: "list_all ishex s \<Longrightarrow> CHR '':'' \<notin> set s"
proof
  assume "list_all ishex s" and "CHR '':'' \<in> set s"
  then have "ishex (CHR '':'')" by (simp add: list_all_iff)
  then show False by (simp add: ishex_def)
qed

lemma re_r_no_colon: "re_r s \<Longrightarrow> CHR '':'' \<notin> set s"
  by (auto simp: re_r_def dest: isdigit_no_colon)

lemma re_v_no_colon: "re_v s \<Longrightarrow> CHR '':'' \<notin> set s"
  by (auto simp: re_v_def)

lemma re_c_no_colon: "re_c s \<Longrightarrow> CHR '':'' \<notin> set s"
  by (auto simp: re_c_def dest: ishex_no_colon)

lemma re_l_no_colon: "re_l s \<Longrightarrow> CHR '':'' \<notin> set s"
  by (auto simp: re_l_def dest: isdigit_no_colon)

lemma re_p_end_no_colon: "re_p_end s \<Longrightarrow> CHR '':'' \<notin> set s"
proof -
  assume a: "re_p_end s"
  show ?thesis
  proof (cases "s \<noteq> [] \<and> last s = CHR 0x0A")
    case True
    then have s: "s = butlast s @ [CHR 0x0A]" by (metis append_butlast_last_id)
    from a True have "CHR '':'' \<notin> set (butlast s)"
      by (auto simp: re_p_end_def re_p_def dest: ishex_no_colon)
    then show ?thesis by (subst s) simp
  next
    case False
    with a show ?thesis by (auto simp: re_p_end_def re_p_def dest: ishex_no_colon)
  qed
qed

lemma space_no_colon: "s = '' '' \<Longrightarrow> CHR '':'' \<notin> set s"
  by simp




lemma sentinel_colon: "j < 9 \<Longrightarrow> ''--:------'' ! j = CHR '':'' \<Longrightarrow> j = 2"
proof -
  assume a: "j < 9" and b: "''--:------'' ! j = CHR '':''"
  have "j = 0 \<or> j = 1 \<or> j = 2 \<or> j = 3 \<or> j = 4 \<or> j = 5 \<or> j = 6 \<or> j = 7 \<or> j = 8"
    using a by arith
  then show ?thesis using b by (elim disjE) simp_all
qed

lemma re_d_cases:
  assumes "re_d s"
  shows "s = ''--:------'' \<or>
    (length s = 9 \<and> CHR '':'' \<notin> set (slice 0 2 s) \<and> CHR '':'' \<notin> set (slice 3 9 s))"
  using assms isdigit_no_colon unfolding re_d_def by blast

lemma re_d_colon:
  assumes "re_d s" "j < 9" "s ! j = CHR '':''"
  shows "j = 2"
proof (rule ccontr)
  assume n: "j \<noteq> 2"
  from re_d_cases [OF assms(1)] show False
  proof (elim disjE conjE)
    assume "s = ''--:------''"
    with assms(2,3) n show False using sentinel_colon by blast
  next
    assume len: "length s = 9"
      and lo: "CHR '':'' \<notin> set (slice 0 2 s)" and hi: "CHR '':'' \<notin> set (slice 3 9 s)"
    show False
    proof (cases "j < 2")
      case True
      then have "s ! j \<in> set (slice 0 2 s)" using len by (intro nth_in_slice) simp_all
      with lo assms(3) show False by simp
    next
      case False
      with n assms(2) have "3 \<le> j" "j < 9" by simp_all
      then have "s ! j \<in> set (slice 3 9 s)" using len by (intro nth_in_slice) simp_all
      with hi assms(3) show False by simp
    qed
  qed
qed

lemma no_colon_segment:
  assumes "CHR '':'' \<notin> set (slice a b s)" "a \<le> i" "i < b" "i < length s"
  shows "s ! i \<noteq> CHR '':''"
  using nth_in_slice [OF assms(2,3,4)] assms(1) by metis

lemma addr_segment:
  assumes "re_d (slice a (a + 9) s)" "a \<le> i" "i < a + 9" "i < length s" "s ! i = CHR '':''"
  shows "i = a + 2"
proof -
  have "slice a (a + 9) s ! (i - a) = s ! i" using assms(2,3,4) by (rule nth_slice)
  with assms(5) have "slice a (a + 9) s ! (i - a) = CHR '':''" by simp
  moreover have "i - a < 9" using assms(2,3) by simp
  ultimately have "i - a = 2" using re_d_colon [OF assms(1)] by blast
  then show ?thesis using assms(2) by simp
qed

lemma MESSAGE_REGEX_fields:
  assumes "MESSAGE_REGEX s"
  shows "re_r (slice 0 3 s)" and "slice 3 4 s = '' ''" and "re_v (slice 4 6 s)"
    and "slice 6 7 s = '' ''" and "re_r (slice 7 10 s)" and "slice 10 11 s = '' ''"
    and "re_d (slice 11 20 s)" and "slice 20 21 s = '' ''" and "re_d (slice 21 30 s)"
    and "slice 30 31 s = '' ''" and "re_d (slice 31 40 s)" and "slice 40 41 s = '' ''"
    and "re_c (slice 41 45 s)" and "slice 45 46 s = '' ''" and "re_l (slice 46 49 s)"
    and "slice 49 50 s = '' ''" and "re_p_end (drop 50 s)"
  using assms unfolding MESSAGE_REGEX_def
  apply -
  apply (elim conjE, assumption)+
  done

lemma colon_positions:
  assumes m: "MESSAGE_REGEX s" and i: "i < length s" and c: "s ! i = CHR '':''"
  shows "i = 13 \<or> i = 23 \<or> i = 33"
proof -
  note f = MESSAGE_REGEX_fields [OF m]
  have nc: "\<And>a b. CHR '':'' \<notin> set (slice a b s) \<Longrightarrow> a \<le> i \<Longrightarrow> i < b \<Longrightarrow> False"
    using no_colon_segment i c by blast
  have ad: "\<And>a. re_d (slice a (a + 9) s) \<Longrightarrow> a \<le> i \<Longrightarrow> i < a + 9 \<Longrightarrow> i = a + 2"
    using addr_segment i c by blast
  have g0: "3 \<le> i" using nc [OF re_r_no_colon [OF f(1)]] by fastforce
  have g1: "4 \<le> i" using nc [OF space_no_colon [OF f(2)]] g0 by fastforce
  have g2: "6 \<le> i" using nc [OF re_v_no_colon [OF f(3)]] g1 by fastforce
  have g3: "7 \<le> i" using nc [OF space_no_colon [OF f(4)]] g2 by fastforce
  have g4: "10 \<le> i" using nc [OF re_r_no_colon [OF f(5)]] g3 by fastforce
  have g5: "11 \<le> i" using nc [OF space_no_colon [OF f(6)]] g4 by fastforce
  have g6: "i = 13 \<or> 20 \<le> i" using ad [of 11] f(7) g5 by fastforce
  have g7: "i = 13 \<or> 21 \<le> i" using nc [OF space_no_colon [OF f(8)]] g6 by fastforce
  have g8: "i = 13 \<or> i = 23 \<or> 30 \<le> i" using ad [of 21] f(9) g7 by fastforce
  have g9: "i = 13 \<or> i = 23 \<or> 31 \<le> i" using nc [OF space_no_colon [OF f(10)]] g8 by fastforce
  have g10: "i = 13 \<or> i = 23 \<or> i = 33 \<or> 40 \<le> i" using ad [of 31] f(11) g9 by fastforce
  have g11: "i = 13 \<or> i = 23 \<or> i = 33 \<or> 41 \<le> i"
    using nc [OF space_no_colon [OF f(12)]] g10 by fastforce
  have g12: "i = 13 \<or> i = 23 \<or> i = 33 \<or> 45 \<le> i"
    using nc [OF re_c_no_colon [OF f(13)]] g11 by fastforce
  have g13: "i = 13 \<or> i = 23 \<or> i = 33 \<or> 46 \<le> i"
    using nc [OF space_no_colon [OF f(14)]] g12 by fastforce
  have g14: "i = 13 \<or> i = 23 \<or> i = 33 \<or> 49 \<le> i"
    using nc [OF re_l_no_colon [OF f(15)]] g13 by fastforce
  have g15: "i = 13 \<or> i = 23 \<or> i = 33 \<or> 50 \<le> i"
    using nc [OF space_no_colon [OF f(16)]] g14 by fastforce
  have tail: "50 \<le> i \<Longrightarrow> False"
  proof -
    assume "50 \<le> i"
    then have "drop 50 s ! (i - 50) = s ! i" and "i - 50 < length (drop 50 s)" using i by simp_all
    then have "s ! i \<in> set (drop 50 s)" by (metis nth_mem)
    with re_p_end_no_colon [OF f(17)] c show False by simp
  qed
  with g15 show ?thesis by blast
qed


lemma slice_append: "a \<le> b \<Longrightarrow> b \<le> c \<Longrightarrow> slice a c s = slice a b s @ slice b c s"
proof -
  assume ab: "a \<le> b" and bc: "b \<le> c"
  have "take ((b - a) + (c - b)) (drop a s) =
      take (b - a) (drop a s) @ take (c - b) (drop (b - a) (drop a s))"
    by (rule take_add)
  moreover have "(b - a) + (c - b) = c - a" using ab bc by simp
  moreover have "drop (b - a) (drop a s) = drop b s" using ab by simp
  ultimately show ?thesis by (simp add: slice_def)
qed

lemma slice_slice: "k \<le> b - a \<Longrightarrow> slice 0 k (slice a b s) = slice a (a + k) s"
  by (simp add: slice_def min_def)

lemma str_in_slice: "a \<le> b \<Longrightarrow> str_in (slice a b s) s"
  using split_slice [of a b s] str_in_iff by blast

lemma is_device_id_colon: "is_device_id d \<Longrightarrow> length d = 9 \<and> d ! 2 = CHR '':''"
proof -
  assume a: "is_device_id d"
  then have len: "length d = 9" and c: "slice 2 3 d = '':''" by (simp_all add: is_device_id_def)
  have "slice 2 3 d ! (2 - 2) = d ! 2" using len by (intro nth_slice) simp_all
  with c len show ?thesis by simp
qed

lemma str_in_device_id:
  assumes m: "MESSAGE_REGEX s" and d: "is_device_id d"
  shows "str_in d s \<longleftrightarrow> d \<in> set (pkt_addrs s)"
proof
  assume "str_in d s"
  then obtain ps ss where s: "s = ps @ d @ ss" using str_in_iff by blast
  from is_device_id_colon [OF d] have len: "length d = 9" and c: "d ! 2 = CHR '':''" by simp_all
  have "s ! (length ps + 2) = d ! 2" using len by (subst s) (simp add: nth_append)
  with c have eq: "s ! (length ps + 2) = CHR '':''" by simp
  have lt: "length ps + 2 < length s" using len by (subst s) simp
  from colon_positions [OF m lt eq] have n: "length ps = 11 \<or> length ps = 21 \<or> length ps = 31" by arith
  have "slice (length ps) (length ps + 9) s = d"
    using len by (subst s) (rule slice_of_append, simp_all)
  with n show "d \<in> set (pkt_addrs s)" by (auto simp: pkt_addrs_def)
next
  assume "d \<in> set (pkt_addrs s)"
  then have "d = slice 11 20 s \<or> d = slice 21 30 s \<or> d = slice 31 40 s"
    by (simp add: pkt_addrs_def)
  then show "str_in d s" using str_in_slice by auto
qed

lemma class_18_prefix:
  assumes "re_d a" "slice 0 2 a = ''18''"
  shows "slice 0 3 a = ''18:''"
proof -
  from assms have "slice 2 3 a = '':''" unfolding re_d_def by (elim disjE conjE) (simp_all add: slice_def)
  moreover have "slice 0 3 a = slice 0 2 a @ slice 2 3 a" by (rule slice_append) simp_all
  ultimately show ?thesis using assms(2) by simp
qed

lemma str_in_addr_18:
  assumes sp: "slice a (a + 1) s = '' ''" and d: "re_d (slice (a + 1) (a + 10) s)"
    and c: "slice 0 2 (slice (a + 1) (a + 10) s) = ''18''"
  shows "str_in '' 18:'' s"
proof -
  have "slice 0 3 (slice (a + 1) (a + 10) s) = slice (a + 1) (a + 1 + 3) s"
    by (rule slice_slice) simp
  with class_18_prefix [OF d c] have "slice (a + 1) (a + 4) s = ''18:''" by (simp add: add.commute)
  moreover have "slice a (a + 4) s = slice a (a + 1) s @ slice (a + 1) (a + 4) s"
    by (rule slice_append) simp_all
  ultimately have "slice a (a + 4) s = '' 18:''" using sp by simp
  then show ?thesis using str_in_slice [of a "a + 4" s] by simp
qed

lemma str_in_18:
  assumes m: "MESSAGE_REGEX s"
  shows "str_in '' 18:'' s \<longleftrightarrow> has_class_18 s"
proof
  note f = MESSAGE_REGEX_fields [OF m]
  assume "str_in '' 18:'' s"
  then obtain ps ss where s: "s = ps @ '' 18:'' @ ss" using str_in_iff by blast
  have eq: "s ! (length ps + 3) = CHR '':''" by (subst s) (simp add: nth_append)
  have lt: "length ps + 3 < length s" by (subst s) simp
  from colon_positions [OF m lt eq] have n: "length ps = 10 \<or> length ps = 20 \<or> length ps = 30" by arith
  have k: "slice (length ps + 1) (length ps + 3) s = ''18''"
    by (subst s) (simp add: slice_def)
  have a0: "slice 0 2 (slice 11 20 s) = slice 11 13 s"
    and a1: "slice 0 2 (slice 21 30 s) = slice 21 23 s"
    and a2: "slice 0 2 (slice 31 40 s) = slice 31 33 s"
    by (simp_all add: slice_def)
  from n show "has_class_18 s"
  proof (elim disjE)
    assume "length ps = 10"
    with k a0 show ?thesis by (simp add: has_class_18_def pkt_addrs_def)
  next
    assume "length ps = 20"
    with k a1 show ?thesis by (simp add: has_class_18_def pkt_addrs_def)
  next
    assume "length ps = 30"
    with k a2 show ?thesis by (simp add: has_class_18_def pkt_addrs_def)
  qed
next
  note f = MESSAGE_REGEX_fields [OF m]
  assume "has_class_18 s"
  then consider "slice 0 2 (slice 11 20 s) = ''18''" | "slice 0 2 (slice 21 30 s) = ''18''"
    | "slice 0 2 (slice 31 40 s) = ''18''"
    by (auto simp: has_class_18_def pkt_addrs_def)
  then show "str_in '' 18:'' s"
  proof cases
    case 1 then show ?thesis using str_in_addr_18 [of 10 s] f(6,7) by simp
  next
    case 2 then show ?thesis using str_in_addr_18 [of 20 s] f(8,9) by simp
  next
    case 3 then show ?thesis using str_in_addr_18 [of 30 s] f(10,11) by simp
  qed
qed

section \<open>Configuration and constants\<close>

text \<open>
  C7 (as amended). \<^verbatim>\<open>DEV_MODE\<close> is set in the source, so the default maximum number
  of zones is 16, and the zone indices accepted by default are those below 16; the
  default is 12 only with \<^verbatim>\<open>DEV_MODE\<close> off.
\<close>

theorem C7_default_max_zones:
  "DEFAULT_MAX_ZONES = 16 \<and> max_zones_for True = 16 \<and> max_zones_for False = 12 \<and>
   zone_idx_accepted DEFAULT_MAX_ZONES zone_idx = (zone_idx < 16)"
  by (simp add: DEFAULT_MAX_ZONES_def max_zones_for_def DEV_MODE_def zone_idx_accepted_def)

text \<open>
  C7 as stated fails: the default limit is not 12, and zone index 12 is accepted by
  default.
\<close>

theorem C7_default_is_not_12:
  "DEFAULT_MAX_ZONES \<noteq> 12 \<and> zone_idx_accepted DEFAULT_MAX_ZONES 12 \<and> \<not> (12::nat) < 12"
  by (simp add: DEFAULT_MAX_ZONES_def max_zones_for_def DEV_MODE_def zone_idx_accepted_def)

lemma disable_message_log_keeps:
  "input_file (disable_message_log c) = input_file c"
  "listen_only (disable_message_log c) = listen_only c"
  "execute_cmd (disable_message_log c) = execute_cmd c"
  by (simp_all add: disable_message_log_def)

lemma input_file_overrides_fields:
  "input_file (input_file_overrides c) = input_file c"
  "listen_only (input_file_overrides c) =
     (if input_file c \<noteq> None \<and> \<not> truthy_bool (listen_only c) then Some True else listen_only c)"
  "execute_cmd (input_file_overrides c) =
     (if input_file c \<noteq> None \<and> truthy_str (execute_cmd c) then None else execute_cmd c)"
  by (simp_all add: input_file_overrides_def Let_def)

lemma set_listen_only_fields:
  "input_file (set_listen_only c) = input_file c"
  "listen_only (set_listen_only c) = Some (\<not> truthy_bool (probe_system c))"
  "execute_cmd (set_listen_only c) = execute_cmd c"
  by (simp_all add: set_listen_only_def)

lemma ignore_input_file_fields:
  "input_file (ignore_input_file port c) =
     (if truthy_str port then None else input_file c)"
  "probe_system (ignore_input_file port c) = probe_system c"
  "execute_cmd (ignore_input_file port c) = execute_cmd c"
  by (simp_all add: ignore_input_file_def)

lemma config_gateway_init:
  "config (gateway_init port c e) =
     disable_message_log (input_file_overrides (set_listen_only (ignore_input_file port c)))"
  by (simp add: gateway_init_def)

lemma truthy_simps:
  "truthy_bool (Some b) = b" "\<not> truthy_str None"
  by (simp_all add: truthy_bool_def truthy_str_def)

text \<open>
  C8. Normalising the configuration in \<^verbatim>\<open>Gateway.__init__\<close>: with a serial port and
  an input file the input file is reset to \<^verbatim>\<open>None\<close>; when an input file remains the
  packet source, \<^verbatim>\<open>listen_only\<close> is true and \<^verbatim>\<open>execute_cmd\<close> is cleared; and
  \<^verbatim>\<open>listen_only\<close> is first set to the negation of \<^verbatim>\<open>probe_system\<close>, which is its
  final value when no input file is the source.
\<close>

theorem C8_config_normalisation:
  "(truthy_str port \<and> input_file c \<noteq> None \<longrightarrow>
      input_file (config (gateway_init port c e)) = None) \<and>
   (input_file (config (gateway_init port c e)) \<noteq> None \<longrightarrow>
      listen_only (config (gateway_init port c e)) = Some True \<and>
      \<not> truthy_str (execute_cmd (config (gateway_init port c e)))) \<and>
   (truthy_str (execute_cmd c) \<and> input_file (config (gateway_init port c e)) \<noteq> None \<longrightarrow>
      execute_cmd (config (gateway_init port c e)) = None) \<and>
   listen_only (set_listen_only (ignore_input_file port c)) =
      Some (\<not> truthy_bool (probe_system c)) \<and>
   (input_file (config (gateway_init port c e)) = None \<longrightarrow>
      listen_only (config (gateway_init port c e)) = Some (\<not> truthy_bool (probe_system c)))"
  by (simp add: config_gateway_init disable_message_log_keeps input_file_overrides_fields
      set_listen_only_fields ignore_input_file_fields truthy_simps)

theorem C8_config_normalisation_witness:
  "truthy_str (Some ''/dev/ttyUSB0'') \<and> input_file replay_config \<noteq> None \<and>
   input_file (config (gateway_init (Some ''/dev/ttyUSB0'') replay_config ())) = None \<and>
   listen_only (config (gateway_init (Some ''/dev/ttyUSB0'') replay_config ())) = Some False \<and>
   truthy_str (execute_cmd replay_config) \<and>
   input_file (config (gateway_init None replay_config ())) \<noteq> None \<and>
   listen_only (config (gateway_init None replay_config ())) = Some True \<and>
   execute_cmd (config (gateway_init None replay_config ())) = None"
  using C8_config_normalisation [of "Some ''/dev/ttyUSB0''" replay_config "()"]
    C8_config_normalisation [of None replay_config "()"]
  by (simp add: replay_config_def truthy_str_def truthy_bool_def config_gateway_init
      disable_message_log_keeps input_file_overrides_fields set_listen_only_fields
      ignore_input_file_fields)

text \<open>
  C9. \<^verbatim>\<open>select_device_filter_mode\<close> returns false when the known list is to be
  enforced but is empty, and returns the flag it was given in every other case.
\<close>

theorem C9_select_device_filter_mode:
  "fst (select_device_filter_mode enforce_known_list known_list block_list) =
     (if enforce_known_list \<and> known_list = [] then False else enforce_known_list)"
  by (simp add: select_device_filter_mode_def)

section \<open>The dispatcher\<close>

lemma dispatch_loop_listen:
  "\<not> has_dest \<or> listen \<Longrightarrow>
   dispatch_loop cmd_str sends has_dest listen que buf =
     (if has_dest then filter (\<lambda>cmd. startswith (cmd_str cmd) ''!'') que else [], buf, [])"
  by (induction que) (auto simp: dispatch_cmd_def)

text \<open>
  C10. With \<^verbatim>\<open>listen_only\<close> set, or without a destination, \<^verbatim>\<open>_dispatch_pkt\<close> takes
  every command off the queue and writes none of them, except that with a destination
  the commands whose text starts with \<^verbatim>\<open>!\<close> are written, in queue order; the queue
  is empty afterwards and the buffer is untouched.
\<close>

theorem C10_dispatch_listen_only:
  assumes "\<not> has_dest \<or> truthy_bool (listen_only (config gwy))"
  shows "cmd_que (fst (dispatch_pkt cmd_str sends has_dest gwy)) = [] \<and>
         snd (dispatch_pkt cmd_str sends has_dest gwy) =
           (if has_dest then filter (\<lambda>cmd. startswith (cmd_str cmd) ''!'') (cmd_que gwy) else []) \<and>
         buffer (fst (dispatch_pkt cmd_str sends has_dest gwy)) = buffer gwy"
  using assms by (simp add: dispatch_pkt_def dispatch_loop_listen)

theorem C10_dispatch_listen_only_witness:
  "truthy_bool (listen_only (config listening_gateway)) \<and>
   cmd_que (fst (dispatch_pkt show_cmd one_send True listening_gateway)) = [] \<and>
   snd (dispatch_pkt show_cmd one_send True listening_gateway) = [control_cmd] \<and>
   snd (dispatch_pkt show_cmd one_send False listening_gateway) = []"
  using C10_dispatch_listen_only [of True listening_gateway show_cmd one_send]
    C10_dispatch_listen_only [of False listening_gateway show_cmd one_send]
  by (simp add: listening_gateway_def plain_config_def truthy_bool_def show_cmd_def
      control_cmd_def rq_0404_def)

section \<open>The device filter on valid packets\<close>

lemma device_id_no_sentinel: "is_device_id a \<Longrightarrow> a \<noteq> ''--:------''"
proof
  assume a: "is_device_id a" and b: "a = ''--:------''"
  from a have "list_all isdigit (slice 0 2 a)" by (simp add: is_device_id_def)
  with b have "isdigit (CHR ''-'')" by (simp add: slice_def)
  then show False by (simp add: isdigit_def)
qed

lemma any_str_in_device_ids:
  assumes m: "MESSAGE_REGEX s" and l: "list_all is_device_id l"
  shows "list_ex (\<lambda>d. str_in d s) l = list_ex (\<lambda>a. a \<in> set l) (pkt_addrs s)"
proof -
  have "(\<exists>d\<in>set l. str_in d s) = (\<exists>d\<in>set l. d \<in> set (pkt_addrs s))"
    using str_in_device_id [OF m] l by (auto simp: list_all_iff)
  then show ?thesis by (auto simp: list_ex_iff)
qed

lemma in_known_list_device_ids:
  assumes "list_all is_device_id l"
  shows "in_known_list l s = list_ex (\<lambda>a. a \<in> set l) (pkt_addrs s)"
  using assms device_id_no_sentinel unfolding in_known_list_def list_ex_iff list_all_iff
  by blast

lemma whitelist_characterised:
  assumes "MESSAGE_REGEX pkt" "list_all is_device_id wl" "wl \<noteq> []"
  shows "has_wanted_device pkt wl bl = spec_whitelist_admits wl pkt"
  using assms
  by (simp add: has_wanted_device_def spec_whitelist_admits_def str_in_18
      any_str_in_device_ids in_known_list_device_ids)

lemma blacklist_characterised:
  assumes "MESSAGE_REGEX pkt" "list_all is_device_id bl"
  shows "has_wanted_device pkt [] bl = (has_class_18 pkt \<or> \<not> spec_blacklist_drops bl pkt)"
  using assms
  by (simp add: has_wanted_device_def spec_blacklist_drops_def str_in_18 any_str_in_device_ids)

lemma has_class_18_addrs: "pkt_addrs p = pkt_addrs q \<Longrightarrow> has_class_18 p = has_class_18 q"
  by (simp add: has_class_18_def)

lemma spec_blacklist_drops_addrs:
  "pkt_addrs p = pkt_addrs q \<Longrightarrow> spec_blacklist_drops bl p = spec_blacklist_drops bl q"
  by (simp add: spec_blacklist_drops_def)

lemma start_device_lists_blacklist:
  "start_device_lists False known_devices = (wl, bl) \<Longrightarrow> wl = []"
  by (auto simp: start_device_lists_def split: option.splits)

lemma start_device_lists_enforced:
  "start_device_lists True (Some devices) = (wl, bl) \<Longrightarrow> wl = unflagged devices \<and> bl = []"
  by (auto simp: start_device_lists_def unflagged_def)

lemma unflagged_device_ids:
  "list_all is_device_id (map fst devices) \<Longrightarrow> list_all is_device_id (unflagged devices)"
  by (auto simp: unflagged_def list_all_iff)

lemma unflagged_none_flagged:
  "list_all (\<lambda>kv. \<not> snd kv) devices \<Longrightarrow> unflagged devices = map fst devices"
  by (simp add: unflagged_def list_all_iff)

lemma empty_lists_admit: "has_wanted_device pkt [] []"
  by (simp add: has_wanted_device_def)

text \<open>
  C1 (as amended). With the whitelist in force (\<^verbatim>\<open>device_whitelist\<close> set), the
  whitelist the filter is given is the known devices less those flagged
  \<^verbatim>\<open>blacklist\<close>. The known devices being device ids: if at least one of them is not
  flagged, the filter admits a valid packet if and only if one of its non-sentinel
  addresses is a known device that is not flagged, or one of its addresses has device
  class 18; if all of them are flagged, or there are none, the filter admits every valid
  packet. With no device flagged the whitelist is the known list itself.
\<close>

theorem C1_whitelist_filter:
  assumes "MESSAGE_REGEX pkt"
    and "start_device_lists True (Some devices) = (wl, bl)"
    and "list_all is_device_id (map fst devices)"
  shows "(unflagged devices \<noteq> [] \<longrightarrow>
            has_wanted_device pkt wl bl = spec_whitelist_admits (unflagged devices) pkt) \<and>
         (unflagged devices = [] \<longrightarrow> has_wanted_device pkt wl bl) \<and>
         (list_all (\<lambda>kv. \<not> snd kv) devices \<longrightarrow> unflagged devices = map fst devices)"
proof -
  from start_device_lists_enforced [OF assms(2)]
  have wl: "wl = unflagged devices" and bl: "bl = []" by simp_all
  have ids: "list_all is_device_id (unflagged devices)"
    using assms(3) by (rule unflagged_device_ids)
  have 1: "unflagged devices \<noteq> [] \<longrightarrow>
      has_wanted_device pkt wl bl = spec_whitelist_admits (unflagged devices) pkt"
    using whitelist_characterised [OF assms(1) ids] wl by blast
  have 2: "unflagged devices = [] \<longrightarrow> has_wanted_device pkt wl bl"
    using empty_lists_admit wl bl by simp
  from 1 2 unflagged_none_flagged [of devices] show ?thesis by blast
qed

text \<open>
  C1 as stated fails when the whitelist is in force but empty: the filter then falls
  back to the (empty) blacklist and admits a packet none of whose addresses is known
  or of class 18.
\<close>

theorem C1_empty_known_list_admits_all:
  "MESSAGE_REGEX pkt_neighbour \<and>
   has_wanted_device pkt_neighbour (fst (start_device_lists True known_nothing))
     (snd (start_device_lists True known_nothing)) \<and>
   \<not> spec_whitelist_admits (fst (start_device_lists True known_nothing)) pkt_neighbour"
  by code_simp

theorem C1_whitelist_filter_witness:
  "MESSAGE_REGEX pkt_ctl_to_trv \<and> MESSAGE_REGEX pkt_neighbour \<and> MESSAGE_REGEX pkt_ctl_sync \<and>
   start_device_lists True (Some [(''01:145038'', False)]) = ([''01:145038''], []) \<and>
   has_wanted_device pkt_ctl_to_trv [''01:145038''] [] \<and>
   \<not> has_wanted_device pkt_neighbour [''01:145038''] [] \<and>
   start_device_lists True (Some known_ctl_flagged) = ([''04:000001''], []) \<and>
   \<not> has_wanted_device pkt_ctl_sync [''04:000001''] [] \<and>
   start_device_lists True (Some known_all_flagged) = ([], []) \<and>
   has_wanted_device pkt_neighbour [] []"
proof -
  have m1: "MESSAGE_REGEX pkt_ctl_to_trv" and m2: "MESSAGE_REGEX pkt_neighbour"
    and m3: "MESSAGE_REGEX pkt_ctl_sync" by code_simp+
  have st1: "start_device_lists True (Some [(''01:145038'', False)]) = ([''01:145038''], [])"
    by code_simp
  have st2: "start_device_lists True (Some known_ctl_flagged) = ([''04:000001''], [])"
    by code_simp
  have st3: "start_device_lists True (Some known_all_flagged) = ([], [])" by code_simp
  have i1: "list_all is_device_id (map fst [(''01:145038'', False)])" by code_simp
  have i2: "list_all is_device_id (map fst known_ctl_flagged)" by code_simp
  have i3: "list_all is_device_id (map fst known_all_flagged)" by code_simp
  have u1: "unflagged [(''01:145038'', False)] = [''01:145038'']" by code_simp
  have u2: "unflagged known_ctl_flagged = [''04:000001'']" by code_simp
  have u3: "unflagged known_all_flagged = []" by code_simp
  have a1: "spec_whitelist_admits [''01:145038''] pkt_ctl_to_trv" by code_simp
  have a2: "\<not> spec_whitelist_admits [''01:145038''] pkt_neighbour" by code_simp
  have a3: "\<not> spec_whitelist_admits [''04:000001''] pkt_ctl_sync" by code_simp
  from C1_whitelist_filter [OF m1 st1 i1] u1 a1
  have w1: "has_wanted_device pkt_ctl_to_trv [''01:145038''] []" by simp
  from C1_whitelist_filter [OF m2 st1 i1] u1 a2
  have w2: "\<not> has_wanted_device pkt_neighbour [''01:145038''] []" by simp
  from C1_whitelist_filter [OF m3 st2 i2] u2 a3
  have w3: "\<not> has_wanted_device pkt_ctl_sync [''04:000001''] []" by simp
  from C1_whitelist_filter [OF m2 st3 i3] u3
  have w4: "has_wanted_device pkt_neighbour [] []" by simp
  from m1 m2 m3 st1 st2 st3 w1 w2 w3 w4 show ?thesis by blast
qed

text \<open>
  C2 (as amended). With no whitelist in force and a blacklist of device ids, the filter
  drops a valid packet if and only if one of its three addresses is in the blacklist
  and none of its addresses has device class 18; two valid packets with the same
  address triple get the same decision, whatever their other fields and payloads.
\<close>

theorem C2_blacklist_filter:
  assumes "MESSAGE_REGEX p" and "MESSAGE_REGEX q"
    and "start_device_lists False known_devices = (wl, bl)"
    and "list_all is_device_id bl"
  shows "(\<not> has_wanted_device p wl bl) = (spec_blacklist_drops bl p \<and> \<not> has_class_18 p) \<and>
         (pkt_addrs p = pkt_addrs q \<longrightarrow> has_wanted_device p wl bl = has_wanted_device q wl bl)"
proof -
  from assms(3) have wl: "wl = []" by (rule start_device_lists_blacklist)
  have p: "has_wanted_device p [] bl = (has_class_18 p \<or> \<not> spec_blacklist_drops bl p)"
    using assms(1,4) by (rule blacklist_characterised)
  have q: "has_wanted_device q [] bl = (has_class_18 q \<or> \<not> spec_blacklist_drops bl q)"
    using assms(2,4) by (rule blacklist_characterised)
  show ?thesis
    using p q has_class_18_addrs [of p q] spec_blacklist_drops_addrs [of p q bl]
    unfolding wl by blast
qed

text \<open>
  C2 as stated fails for a packet that names the adapter: it is admitted although one
  of its addresses is in the blacklist.
\<close>

theorem C2_adapter_bypasses_block_list:
  "MESSAGE_REGEX pkt_hgi_to_ctl \<and>
   spec_blacklist_drops (snd (start_device_lists False blocked_ctl)) pkt_hgi_to_ctl \<and>
   has_wanted_device pkt_hgi_to_ctl (fst (start_device_lists False blocked_ctl))
     (snd (start_device_lists False blocked_ctl))"
  by code_simp

theorem C2_blacklist_filter_witness:
  "MESSAGE_REGEX pkt_ctl_to_trv \<and> MESSAGE_REGEX pkt_ctl_other_payload \<and>
   start_device_lists False blocked_ctl = ([], [''01:145038'']) \<and>
   list_all is_device_id [''01:145038''] \<and>
   pkt_addrs pkt_ctl_to_trv = pkt_addrs pkt_ctl_other_payload \<and>
   \<not> has_wanted_device pkt_ctl_to_trv [] [''01:145038''] \<and>
   \<not> has_wanted_device pkt_ctl_other_payload [] [''01:145038'']"
proof -
  have m1: "MESSAGE_REGEX pkt_ctl_to_trv" and m2: "MESSAGE_REGEX pkt_ctl_other_payload"
    by code_simp+
  have st: "start_device_lists False blocked_ctl = ([], [''01:145038''])" by code_simp
  have ids: "list_all is_device_id [''01:145038'']" by code_simp
  have ad: "pkt_addrs pkt_ctl_to_trv = pkt_addrs pkt_ctl_other_payload" by code_simp
  have d: "spec_blacklist_drops [''01:145038''] pkt_ctl_to_trv \<and> \<not> has_class_18 pkt_ctl_to_trv"
    by code_simp
  from C2_blacklist_filter [OF m1 m2 st ids] d ad
  have "\<not> has_wanted_device pkt_ctl_to_trv [] [''01:145038''] \<and>
        \<not> has_wanted_device pkt_ctl_other_payload [] [''01:145038'']" by blast
  with m1 m2 st ids ad show ?thesis by blast
qed

section \<open>Processing a payload\<close>

lemma evo_match_buffer: "evo (match_buffer msg gwy) = evo gwy"
  by (simp add: match_buffer_def Let_def)

lemma buffer_match_buffer:
  "buffer (match_buffer msg gwy) =
     (if buffer gwy \<noteq> [] \<and> msg_verb msg = ''RP'' \<and> msg_code msg = cmd_code (last (buffer gwy))
      then [] else buffer gwy)"
  by (simp add: match_buffer_def Let_def)

lemma handle_entities_exn_fields:
  "buffer (fst (handle_entities_exn g evs x)) = buffer g"
  "events_run (handle_entities_exn g evs x) = filter (\<lambda>ev. ev \<noteq> LogException) evs"
  by (simp_all add: handle_entities_exn_def events_run_def)


lemma process_payload_buffer:
  assumes "message_init pkt gwy = Inr msg" "is_valid msg" "get_raw_output (config gwy) \<le> 2"
  shows "buffer (fst (process_payload message_init create_entities update_entities pkt gwy)) =
         buffer (match_buffer msg gwy)"
  using assms
  by (simp add: process_payload_def Let_def handle_entities_exn_fields split: prod.splits option.splits)

lemma process_payload_class_18:
  assumes "message_init pkt gwy = Inr msg" "slice 0 2 (dev_from msg) = ''18''"
  shows "evo (fst (process_payload message_init create_entities update_entities pkt gwy)) = evo gwy"
    and "CreateEntities \<notin> set (fst (snd (process_payload message_init create_entities update_entities pkt gwy)))"
    and "UpdateEntities \<notin> set (fst (snd (process_payload message_init create_entities update_entities pkt gwy)))"
  using assms by (simp_all add: process_payload_def Let_def evo_match_buffer)

lemma process_payload_keeps_empty_buffer:
  assumes "buffer gwy = []"
  shows "buffer (fst (process_payload message_init create_entities update_entities pkt gwy)) = []"
proof (cases "message_init pkt gwy")
  case (Inl e)
  with assms show ?thesis by (simp add: process_payload_def)
next
  case (Inr msg)
  have mb: "match_buffer msg gwy = gwy" using assms by (simp add: match_buffer_def)
  obtain e1 x where c: "create_entities msg (evo gwy) = (e1, x)"
    by (cases "create_entities msg (evo gwy)")
  obtain e2 y where u: "update_entities msg e1 = (e2, y)" by (cases "update_entities msg e1")
  show ?thesis
    using assms Inr mb c u
    by (cases x; cases y)
      (simp_all add: process_payload_def Let_def handle_entities_exn_fields)
qed





text \<open>
  C4. A Message whose source device has class 18 leaves the entity store as it was:
  neither \<^verbatim>\<open>_create_entities\<close> nor \<^verbatim>\<open>_update_entities\<close> runs, whatever the
  \<^verbatim>\<open>raw_output\<close> tier.
\<close>

theorem C4_adapter_messages_observational:
  assumes "message_init pkt gwy = Inr msg" and "slice 0 2 (dev_from msg) = ''18''"
  shows "evo (fst (process_payload message_init create_entities update_entities pkt gwy)) = evo gwy \<and>
    CreateEntities \<notin> set (fst (snd (process_payload message_init create_entities update_entities pkt gwy))) \<and>
    UpdateEntities \<notin> set (fst (snd (process_payload message_init create_entities update_entities pkt gwy)))"
  using process_payload_class_18
    [where message_init = message_init and pkt = pkt and gwy = gwy and msg = msg, OF assms]
  by blast

theorem C4_adapter_messages_observational_witness:
  "slice 0 2 (dev_from (msg_of_line pkt_hgi_to_ctl)) = ''18'' \<and>
   evo (fst (process_payload line_message note_created note_updated pkt_hgi_to_ctl (at_tier 0))) = [] \<and>
   evo (fst (process_payload line_message note_created note_updated pkt_hgi_to_ctl (at_tier 1))) = [] \<and>
   evo (fst (process_payload line_message note_created note_updated pkt_hgi_to_ctl (at_tier 2))) = []"
proof -
  have s: "slice 0 2 (dev_from (msg_of_line pkt_hgi_to_ctl)) = ''18''" by code_simp
  have m: "\<And>n. line_message pkt_hgi_to_ctl (at_tier n) = Inr (msg_of_line pkt_hgi_to_ctl)"
    by (simp add: line_message_def)
  have e: "\<And>n. evo (at_tier n) = []" by (simp add: at_tier_def waiting_gateway_def)
  show ?thesis
    using s C4_adapter_messages_observational [where message_init = line_message
        and pkt = pkt_hgi_to_ctl and gwy = "at_tier 0" and create_entities = note_created
        and update_entities = note_updated, OF m s]
      C4_adapter_messages_observational [where message_init = line_message
        and pkt = pkt_hgi_to_ctl and gwy = "at_tier 1" and create_entities = note_created
        and update_entities = note_updated, OF m s]
      C4_adapter_messages_observational [where message_init = line_message
        and pkt = pkt_hgi_to_ctl and gwy = "at_tier 2" and create_entities = note_created
        and update_entities = note_updated, OF m s]
    by (simp add: e)
qed

text \<open>
  C5 (as amended). While a command waits in the buffer, a valid inbound Message (tier 2
  or below) consumes it if and only if its verb is \<^verbatim>\<open>RP\<close> and its code is the code
  of the last buffered command; its source address is not looked at and verb \<^verbatim>\<open>I\<close>
  never matches. A Message that does not match leaves the buffer as it was. The first
  match empties the buffer, and any packet processed next leaves it empty, so a later
  match consumes nothing as long as the dispatcher has buffered no further command;
  once it has, a reply of that code consumes the new command in the same way.
\<close>

theorem C5_reply_matching:
  assumes "message_init pkt gwy = Inr msg" and "is_valid msg"
    and "get_raw_output (config gwy) \<le> 2"
  shows
    "consumed gwy (fst (process_payload message_init create_entities update_entities pkt gwy)) =
       (buffer gwy \<noteq> [] \<and> msg_verb msg = ''RP'' \<and> msg_code msg = cmd_code (last (buffer gwy))) \<and>
     (\<not> consumed gwy (fst (process_payload message_init create_entities update_entities pkt gwy)) \<longrightarrow>
       buffer (fst (process_payload message_init create_entities update_entities pkt gwy)) = buffer gwy) \<and>
     (consumed gwy (fst (process_payload message_init create_entities update_entities pkt gwy)) \<longrightarrow>
       buffer (fst (process_payload message_init create_entities update_entities later_pkt
              (fst (process_payload message_init create_entities update_entities pkt gwy)))) = [])"
proof -
  let ?g = "fst (process_payload message_init create_entities update_entities pkt gwy)"
  have b: "buffer ?g = buffer (match_buffer msg gwy)"
    using process_payload_buffer
      [where message_init = message_init and pkt = pkt and gwy = gwy and msg = msg, OF assms] .
  have 1: "consumed gwy ?g =
       (buffer gwy \<noteq> [] \<and> msg_verb msg = ''RP'' \<and> msg_code msg = cmd_code (last (buffer gwy)))"
    using b by (auto simp: consumed_def buffer_match_buffer split: if_splits)
  have 2: "\<not> consumed gwy ?g \<longrightarrow> buffer ?g = buffer gwy"
    using b by (auto simp: consumed_def buffer_match_buffer split: if_splits)
  have 3: "consumed gwy ?g \<longrightarrow>
      buffer (fst (process_payload message_init create_entities update_entities later_pkt ?g)) = []"
    using process_payload_keeps_empty_buffer [of ?g message_init create_entities update_entities later_pkt]
    by (simp add: consumed_def)
  from 1 2 3 show ?thesis by blast
qed

text \<open>
  C5 as stated fails: a reply of the right code from a device other than the command's
  destination consumes the pending command.
\<close>

theorem C5_other_source_consumes_reply:
  "buffer (at_tier 0) = [rq_0404] \<and>
   line_message pkt_rp_0404_other (at_tier 0) = Inr (msg_of_line pkt_rp_0404_other) \<and>
   is_valid (msg_of_line pkt_rp_0404_other) \<and>
   \<not> spec_reply_match (msg_of_line pkt_rp_0404_other) rq_0404 \<and>
   consumed (at_tier 0)
     (fst (process_payload line_message note_created note_updated pkt_rp_0404_other (at_tier 0)))"
  by code_simp

theorem C5_reply_matching_witness:
  "is_valid (msg_of_line pkt_rp_0404_ctl) \<and> get_raw_output (config (at_tier 0)) \<le> 2 \<and>
   consumed (at_tier 0) after_reply \<and>
   buffer (fst (process_payload line_message note_created note_updated pkt_rp_0404_ctl after_reply)) = [] \<and>
   consumed (buffer_next rq_0404 after_reply)
     (fst (process_payload line_message note_created note_updated pkt_rp_0404_ctl
        (buffer_next rq_0404 after_reply))) \<and>
   \<not> consumed (at_tier 0)
     (fst (process_payload line_message note_created note_updated pkt_ctl_to_trv (at_tier 0))) \<and>
   buffer (fst (process_payload line_message note_created note_updated pkt_ctl_to_trv (at_tier 0))) =
     [rq_0404]"
proof -
  have v1: "is_valid (msg_of_line pkt_rp_0404_ctl)" and v2: "is_valid (msg_of_line pkt_ctl_to_trv)"
    by code_simp+
  have t: "get_raw_output (config (at_tier 0)) \<le> 2" by code_simp
  have t': "get_raw_output (config (buffer_next rq_0404 after_reply)) \<le> 2" by code_simp
  have m: "\<And>p g. line_message p g = Inr (msg_of_line p)"
    by (simp add: line_message_def)
  have b: "buffer (at_tier 0) = [rq_0404]" by (simp add: at_tier_def waiting_gateway_def)
  have b': "buffer (buffer_next rq_0404 after_reply) \<noteq> [] \<and>
            last (buffer (buffer_next rq_0404 after_reply)) = rq_0404"
    by (simp add: buffer_next_def)
  have f1: "msg_verb (msg_of_line pkt_rp_0404_ctl) = ''RP'' \<and>
            msg_code (msg_of_line pkt_rp_0404_ctl) = cmd_code rq_0404" by code_simp
  have f2: "msg_verb (msg_of_line pkt_ctl_to_trv) \<noteq> ''RP''" by code_simp
  show ?thesis
    unfolding after_reply_def [symmetric]
    using v1 t f1 f2 b'
      C5_reply_matching [where message_init = line_message and pkt = pkt_rp_0404_ctl
        and gwy = "at_tier 0" and create_entities = note_created
        and update_entities = note_updated and later_pkt = pkt_rp_0404_ctl, OF m v1 t]
      C5_reply_matching [where message_init = line_message and pkt = pkt_rp_0404_ctl
        and gwy = "buffer_next rq_0404 after_reply" and create_entities = note_created
        and update_entities = note_updated and later_pkt = pkt_rp_0404_ctl, OF m v1 t']
      C5_reply_matching [where message_init = line_message and pkt = pkt_ctl_to_trv
        and gwy = "at_tier 0" and create_entities = note_created
        and update_entities = note_updated and later_pkt = pkt_rp_0404_ctl, OF m v2 t]
    by (simp add: b after_reply_def [symmetric])
qed

section \<open>Replaying a packet log\<close>

lemma file_reader_bad_timestamp:
  "\<not> ISO_FORMAT_REGEX (slice 0 26 ts_pkt) \<Longrightarrow>
   file_reader process_pkt (ts_pkt # rest) st = file_reader process_pkt rest st"
  by (simp add: raw_pkt_of_def check_timestamp_def)

lemma file_reader_good_line:
  "ISO_FORMAT_REGEX (slice 0 26 ts_pkt) \<Longrightarrow> fromisoformat_ok (slice 0 26 ts_pkt) \<Longrightarrow>
   strip (drop 27 ts_pkt) \<noteq> [] \<Longrightarrow>
   file_reader process_pkt (ts_pkt # rest) st =
     (case process_pkt (raw_pkt_of ts_pkt) st of
        Inl e \<Rightarrow> Inl e
      | Inr st' \<Rightarrow> file_reader process_pkt rest st')"
  by (simp add: raw_pkt_of_def check_timestamp_def)

lemma file_reader_all_bad:
  "list_all (\<lambda>l. \<not> ISO_FORMAT_REGEX (slice 0 26 l)) ls \<Longrightarrow> file_reader process_pkt ls st = Inr st"
  by (induction ls) (simp_all add: raw_pkt_of_def check_timestamp_def)

text \<open>
  C6. A line whose first 26 characters do not match the timestamp format is dropped:
  the reader goes on with the next line in the same state, and a file of such lines
  alone ends without an exception and without a change of state. A line with a
  timestamp of that format that denotes a date and time, and with a non-empty packet
  field, is handed to \<^verbatim>\<open>_process_pkt\<close>, after which the reader goes on.
\<close>

theorem C6_replay_timestamps:
  "(\<not> ISO_FORMAT_REGEX (slice 0 26 ts_pkt) \<longrightarrow>
      file_reader process_pkt (ts_pkt # rest) st = file_reader process_pkt rest st) \<and>
   (ISO_FORMAT_REGEX (slice 0 26 ts_pkt) \<and> fromisoformat_ok (slice 0 26 ts_pkt) \<and>
    strip (drop 27 ts_pkt) \<noteq> [] \<longrightarrow>
      file_reader process_pkt (ts_pkt # rest) st =
        (case process_pkt (raw_pkt_of ts_pkt) st of
           Inl e \<Rightarrow> Inl e
         | Inr st' \<Rightarrow> file_reader process_pkt rest st')) \<and>
   (list_all (\<lambda>l. \<not> ISO_FORMAT_REGEX (slice 0 26 l)) ls \<longrightarrow>
      file_reader process_pkt ls st = Inr st)"
  using file_reader_bad_timestamp [of ts_pkt process_pkt rest st]
    file_reader_good_line [of ts_pkt process_pkt rest st]
    file_reader_all_bad [of ls process_pkt st]
  by blast

theorem C6_replay_timestamps_witness:
  "\<not> ISO_FORMAT_REGEX (slice 0 26 line_no_micros) \<and>
   ISO_FORMAT_REGEX (slice 0 26 line_good) \<and> fromisoformat_ok (slice 0 26 line_good) \<and>
   strip (drop 27 line_good) \<noteq> [] \<and>
   file_reader keep_packet [line_no_micros, line_good] [] =
     Inr [''045  I --- 01:145038 --:------ 01:145038 1F09 003 FF073F''] \<and>
   file_reader keep_packet [line_no_micros, line_no_micros] [] = Inr []"
proof -
  have b: "\<not> ISO_FORMAT_REGEX (slice 0 26 line_no_micros)" by code_simp
  have g: "ISO_FORMAT_REGEX (slice 0 26 line_good)" "fromisoformat_ok (slice 0 26 line_good)"
    "strip (drop 27 line_good) \<noteq> []" by code_simp+
  have k: "keep_packet (raw_pkt_of line_good) [] =
      Inr [''045  I --- 01:145038 --:------ 01:145038 1F09 003 FF073F'']" by code_simp
  have bb: "list_all (\<lambda>l. \<not> ISO_FORMAT_REGEX (slice 0 26 l)) [line_no_micros, line_no_micros]"
    using b by simp
  have 1: "file_reader keep_packet [line_no_micros, line_good] [] =
      file_reader keep_packet [line_good] []"
    using C6_replay_timestamps [of line_no_micros keep_packet "[line_good]" "[]"] b by blast
  have 2: "file_reader keep_packet [line_good] [] =
      (case keep_packet (raw_pkt_of line_good) [] of
         Inl e \<Rightarrow> Inl e | Inr st' \<Rightarrow> file_reader keep_packet [] st')"
    using C6_replay_timestamps [of line_good keep_packet "[]" "[]"] g by blast
  have 3: "file_reader keep_packet [line_no_micros, line_no_micros] [] = Inr []"
    using C6_replay_timestamps [of _ keep_packet _ "[]" "[line_no_micros, line_no_micros]"] bb
    by blast
  from 1 2 k have "file_reader keep_packet [line_no_micros, line_good] [] =
     Inr [''045  I --- 01:145038 --:------ 01:145038 1F09 003 FF073F'']" by simp
  with b g 3 show ?thesis by blast
qed

end
